theory Spec2Isabelle
  imports Main "HOL-Library.Sublist"
begin

section \<open>Validation-error details and serializer schemas\<close>

text \<open>
  The \<open>detail\<close> of a rest-framework \<open>ValidationError\<close> is a tree: a message (an
  \<open>ErrorDetail\<close>, which is a \<open>str\<close>), a list of details, or a dict from field names to
  details. A dict keeps its insertion order and \<open>next(iter(d.items()))\<close> reads the first
  item, so a dict is an association list here.
\<close>

datatype detail =
    Msg string
  | DList "detail list"
  | DDict "(string \<times> detail) list"

text \<open>
  The serializer context attached to a \<open>ValidationError\<close>. Every field bound to a
  serializer carries a \<open>label\<close>; a \<open>ListField\<close> has a \<open>child\<close>, a \<open>Serializer\<close> has
  its \<open>fields\<close>; any other field kind is \<open>PlainField\<close>.
\<close>

datatype field =
    PlainField string
  | ListField string field
  | Serializer string "(string \<times> field) list"

fun label :: "field \<Rightarrow> string" where
  "label (PlainField l) = l"
| "label (ListField l c) = l"
| "label (Serializer l fs) = l"

datatype py_error = IndexError | StopIteration | AttributeError

text \<open>\<open>getattr(serializer, "fields", {})\<close>: only a \<open>Serializer\<close> has the attribute.\<close>

fun getattr_fields :: "field \<Rightarrow> (string \<times> field) list" where
  "getattr_fields (Serializer l fs) = fs"
| "getattr_fields f = []"

text \<open>\<open>serializer.fields\<close>, read without a default: \<open>AttributeError\<close> where it is missing.\<close>

fun fields :: "field \<Rightarrow> py_error + (string \<times> field) list" where
  "fields (Serializer l fs) = Inr fs"
| "fields f = Inl AttributeError"

text \<open>
  The constructor \<open>ValidationError(detail)\<close> of the rest framework coerces a detail that
  is neither a list nor a dict to a one-element list.
\<close>

fun new_ValidationError :: "detail \<Rightarrow> detail" where
  "new_ValidationError (Msg m) = DList [Msg m]"
| "new_ValidationError d = d"

text \<open>\<open>drf_api_settings.NON_FIELD_ERRORS_KEY\<close>, at the framework's default.\<close>

definition NON_FIELD_ERRORS_KEY :: string where
  "NON_FIELD_ERRORS_KEY = ''non_field_errors''"

text \<open>
  \<open>str(error)\<close> inside the f-string: an \<open>ErrorDetail\<close> is its own text; for a list or a
  dict Python prints the \<open>repr\<close>, which is taken as the parameter \<open>py_repr\<close>.
\<close>

fun py_str :: "(detail \<Rightarrow> string) \<Rightarrow> detail \<Rightarrow> string" where
  "py_str py_repr (Msg m) = m"
| "py_str py_repr d = py_repr d"

text \<open>
  The tail of \<open>_one_line_error\<close> (the lines after the \<open>if/elif\<close> on \<open>error\<close>): the
  non-field key returns the error object itself; otherwise the key is replaced by the
  label of the field it names, and the line \<open>f"{key}: {error}"\<close> is built.
\<close>

definition one_line_tail ::
  "(detail \<Rightarrow> string) \<Rightarrow> field option \<Rightarrow> string \<Rightarrow> detail \<Rightarrow> py_error + detail" where
  "one_line_tail py_repr ser key error =
     (if key = NON_FIELD_ERRORS_KEY then Inr error
      else case ser of
             None \<Rightarrow> Inr (Msg (key @ '': '' @ py_str py_repr error))
           | Some s \<Rightarrow>
               (case fields s of
                  Inl e \<Rightarrow> Inl e
                | Inr fs \<Rightarrow>
                    (case map_of fs key of
                       Some f \<Rightarrow> Inr (Msg (label f @ '': '' @ py_str py_repr error))
                     | None \<Rightarrow> Inr (Msg (key @ '': '' @ py_str py_repr error)))))"

fun dsize :: "detail \<Rightarrow> nat" where
  "dsize (Msg m) = 1"
| "dsize (DList ds) = Suc (Suc (sum_list (map dsize ds)))"
| "dsize (DDict kvs) = Suc (Suc (sum_list (map (\<lambda>kv. dsize (snd kv)) kvs)))"

lemma dsize_new_ValidationError: "dsize (new_ValidationError d) \<le> dsize d + 2"
  by (cases d) simp_all

function one_line_error ::
  "(detail \<Rightarrow> string) \<Rightarrow> field option \<Rightarrow> detail \<Rightarrow> py_error + detail" where
  "one_line_error py_repr ser (Msg m) = Inl AttributeError"
| "one_line_error py_repr ser (DList []) = Inl IndexError"
| "one_line_error py_repr ser (DList (d # ds)) = Inr d"
| "one_line_error py_repr ser (DDict []) = Inl StopIteration"
| "one_line_error py_repr ser (DDict ((key, Msg m) # kvs)) =
     one_line_tail py_repr ser key (Msg m)"
| "one_line_error py_repr ser (DDict ((key, DList []) # kvs)) = Inl IndexError"
| "one_line_error py_repr ser (DDict ((key, DList (e # es)) # kvs)) =
     one_line_tail py_repr ser key e"
| "one_line_error py_repr ser (DDict ((key, DDict ch) # kvs)) =
     (case ser of
        None \<Rightarrow> one_line_tail py_repr ser key (DDict ch)
      | Some s \<Rightarrow>
          (case map_of (getattr_fields s) key of
             Some (ListField l c) \<Rightarrow>
               (case ch of
                  [] \<Rightarrow> Inl StopIteration
                | (k, child) # rest \<Rightarrow>
                    one_line_error py_repr (Some c) (new_ValidationError child))
           | Some (Serializer l fs) \<Rightarrow>
               one_line_error py_repr (Some (Serializer l fs)) (new_ValidationError (DDict ch))
           | _ \<Rightarrow>
               (case s of
                  ListField l c \<Rightarrow>
                    one_line_error py_repr (Some c) (new_ValidationError (DDict ch))
                | _ \<Rightarrow> one_line_tail py_repr ser key (DDict ch))))"
  by pat_completeness auto
termination
  by (relation "measure (\<lambda>(r, s, d). dsize d)") (auto intro: le_less_trans [OF dsize_new_ValidationError])

section \<open>The error middleware\<close>

text \<open>
  A request: \<open>request.path\<close>, \<open>request.method\<close>, and \<open>method_attr\<close>, the value
  of \<open>getattr(request, request.method, None)\<close> (the query dict of that name, as
  \<open>request.GET\<close> or \<open>request.POST\<close>, or \<open>None\<close> where the request has no such attribute).
  The raw \<open>request.body\<close> is a field of its own; the middleware does not read it.
\<close>

record request =
  path :: string
  request_method :: string
  method_attr :: "(string \<times> string list) list option"
  body :: string

datatype error_code =
    UNAUTHORIZED
  | FORBIDDEN
  | NOT_FOUND_ERROR
  | SYSTEM_ERROR
  | METHOD_NOT_ALLOWED
  | JSON_FORMAT_ERROR
  | VALIDATE_ERROR
  | DomainCode string

text \<open>
  The message of an error: the default of its table entry, the text
  \<open>json.dumps(detail)\<close>, or an object handed over as it is.
\<close>

datatype message = DefaultMessage | JsonDumps detail | Obj detail

record code_exception =
  code :: error_code
  message :: message
  message_replace :: bool
  status_code :: nat

text \<open>
  Modelled from the spec: the table \<open>backend.common.error_codes\<close> is not part of the
  source at hand. Each entry is an error with a stable code, its default message and
  its native HTTP status; the statuses are not given, they are the parameter \<open>native\<close>.
\<close>

definition error_codes :: "(error_code \<Rightarrow> nat) \<Rightarrow> error_code \<Rightarrow> code_exception" where
  "error_codes native c =
     \<lparr>code = c, message = DefaultMessage, message_replace = False, status_code = native c\<rparr>"

text \<open>
  Modelled from the spec: \<open>CodeException.format\<close> is not part of the source at hand. The
  formatted error keeps its code and status and carries the message it is given; the
  \<open>replace\<close> argument is kept as passed.
\<close>

definition format :: "code_exception \<Rightarrow> message \<Rightarrow> bool \<Rightarrow> code_exception" where
  "format e m replace = e\<lparr>message := m, message_replace := replace\<rparr>"

text \<open>
  Modelled from the spec: \<open>CodeException.as_json\<close> is not part of the source at hand. The
  uniform error body carries the code and the message.
\<close>

record error_body =
  body_code :: error_code
  body_message :: message

definition as_json :: "code_exception \<Rightarrow> error_body" where
  "as_json e = \<lparr>body_code = code e, body_message = message e\<rparr>"

text \<open>
  A raised exception: the classes it is an instance of (what \<open>isinstance\<close> answers),
  and the attributes the middleware reads: \<open>exc.detail\<close> (read only of a rest-framework
  exception), \<open>exc.serializer\<close> (read with \<open>getattr\<close> and default \<open>None\<close>) and the
  exception seen as a \<open>CodeException\<close> (read only when it is one).
\<close>

datatype exc_class =
    Http404
  | NotAuthenticated
  | AuthenticationFailed
  | PermissionDenied
  | MethodNotAllowed
  | ParseError
  | ValidationError
  | CodeException
  | OtherClass string

record exc =
  classes :: "exc_class list"
  detail :: detail
  serializer :: "field option"
  as_error :: code_exception

definition isinstance :: "exc \<Rightarrow> exc_class \<Rightarrow> bool" where
  "isinstance e c = (c \<in> set (classes e))"

text \<open>The observable calls of the middleware, in the order they are made.\<close>

text \<open>
  \<open>LoggerError\<close> is the call of \<open>logger.error\<close>, with the exception whose stack
  \<open>traceback.format_exc()\<close> prints, \<open>request.path\<close>, \<open>request.method\<close> and the
  argument of \<open>json.dumps\<close>. \<open>LogApiErrorTrace\<close> is \<open>log_api_error_trace\<close> with the
  request and the optional second argument.
\<close>

datatype effect =
    SetRollback
  | LogApiErrorTrace request "bool option"
  | LoggerError exc string string "(string \<times> string list) list option"
  | CaptureException exc

record response =
  response_data :: error_body
  response_status :: nat

definition HTTP_200_OK :: nat where
  "HTTP_200_OK = 200"

definition is_open_api_request :: "request \<Rightarrow> bool" where
  "is_open_api_request r = sublist ''/api/v1/open/'' (path r)"

definition exception_to_error ::
  "(error_code \<Rightarrow> nat) \<Rightarrow> (detail \<Rightarrow> string) \<Rightarrow> request \<Rightarrow> exc
     \<Rightarrow> effect list \<times> (py_error + code_exception option)" where
  "exception_to_error native py_repr r e =
     (if isinstance e NotAuthenticated \<or> isinstance e AuthenticationFailed then
        ([], Inr (Some (error_codes native UNAUTHORIZED)))
      else if isinstance e PermissionDenied then
        ([], Inr (Some (error_codes native FORBIDDEN)))
      else if isinstance e MethodNotAllowed then
        ([], Inr (Some (format (error_codes native METHOD_NOT_ALLOWED) (Obj (detail e)) False)))
      else if isinstance e ParseError then
        ([], Inr (Some (format (error_codes native JSON_FORMAT_ERROR) (Obj (detail e)) False)))
      else if isinstance e ValidationError then
        (if is_open_api_request r then
           ([], Inr (Some (format (error_codes native VALIDATE_ERROR) (JsonDumps (detail e)) True)))
         else
           (case one_line_error py_repr (serializer e) (detail e) of
              Inl err \<Rightarrow> ([], Inl err)
            | Inr line \<Rightarrow>
                ([], Inr (Some (format (error_codes native VALIDATE_ERROR) (Obj line) False)))))
      else if isinstance e CodeException then
        ([SetRollback, LogApiErrorTrace r None], Inr (Some (as_error e)))
      else ([], Inr None))"

definition ignore_errors :: "error_code list" where
  "ignore_errors = [UNAUTHORIZED, FORBIDDEN, NOT_FOUND_ERROR, SYSTEM_ERROR]"

text \<open>
  Modelled from the spec: the entries of \<open>error_codes\<close> are not part of the source at
  hand; \<open>isinstance(error, ignore_errors)\<close> holds when the error's code is one of the
  listed ones.
\<close>

definition isinstance_error :: "code_exception \<Rightarrow> error_code list \<Rightarrow> bool" where
  "isinstance_error e cs = (code e \<in> set cs)"

text \<open>
  The last lines of \<open>process_exception\<close>: the status is the error's own, or 200 for
  an open-API request whose error is not one of \<open>ignore_errors\<close>; the body is
  \<open>error.as_json()\<close>.
\<close>

definition respond :: "request \<Rightarrow> code_exception \<Rightarrow> response" where
  "respond r error =
     (let code =
            (if is_open_api_request r \<and> \<not> isinstance_error error ignore_errors
             then HTTP_200_OK else status_code error)
      in \<lparr>response_data = as_json error, response_status = code\<rparr>)"

definition process_exception ::
  "(error_code \<Rightarrow> nat) \<Rightarrow> (detail \<Rightarrow> string) \<Rightarrow> request \<Rightarrow> exc
     \<Rightarrow> effect list \<times> (py_error + response option)" where
  "process_exception native py_repr r e =
     (if isinstance e Http404 then ([], Inr None)
      else
        (case exception_to_error native py_repr r e of
           (fx, Inl err) \<Rightarrow> (fx, Inl err)
         | (fx, Inr (Some error)) \<Rightarrow> (fx, Inr (Some (respond r error)))
         | (fx, Inr None) \<Rightarrow>
             (fx @ [LoggerError e (path r) (request_method r) (method_attr r),
                    LogApiErrorTrace r (Some True),
                    CaptureException e],
              Inr (Some (respond r (error_codes native SYSTEM_ERROR))))))"

section \<open>The authorization views\<close>

datatype operate = Grant | Revoke

record subject =
  subject_type :: string
  subject_id :: string

text \<open>An entry \<open>{"id": ...}\<close> of \<open>data["actions"]\<close>, and \<open>data["action"]\<close>.\<close>

datatype action = Action string

fun action_id_of :: "action \<Rightarrow> string" where
  "action_id_of (Action a) = a"

text \<open>The validated data of the single-action and of the batch serializers.\<close>

record 'res common_data =
  operate :: operate
  subject :: subject
  system :: string
  expired_at :: int
  resources :: "'res list"

record 'res single_data = "'res common_data" +
  action :: action

record 'res batch_data = "'res common_data" +
  actions :: "action list"

text \<open>
  A policy draft (what the translator returns) and a stored policy (what
  \<open>grant_or_revoke\<close> returns, of which the views read \<open>action_id\<close> and \<open>policy_id\<close>).
\<close>

record 'res policy_draft =
  draft_system :: string
  draft_action_id :: string
  draft_resources :: "'res set"
  draft_expired_at :: int

record stored_policy =
  policy_id :: int
  action_id :: string

datatype view_error =
    ValidationFailed detail
  | Raised string
  | PyError py_error

text \<open>
  The collaborators of the views, none of them part of the source at hand, are
  parameters: \<open>serializer.is_valid(raise_exception=True)\<close> with \<open>validated_data\<close>, the
  four operations of \<open>AuthorizationTrans\<close>, and \<open>grant_or_revoke\<close> of the view mixin.
  Each may raise.
\<close>

record 'res trans =
  to_policy_list_for_instance ::
    "string \<Rightarrow> string \<Rightarrow> 'res list \<Rightarrow> int \<Rightarrow> view_error + 'res policy_draft list"
  to_policy_list_for_path ::
    "string \<Rightarrow> string \<Rightarrow> 'res list \<Rightarrow> int \<Rightarrow> view_error + 'res policy_draft list"
  to_policy_list_for_instances ::
    "string \<Rightarrow> string list \<Rightarrow> 'res list \<Rightarrow> int \<Rightarrow> view_error + 'res policy_draft list"
  to_policy_list_for_paths ::
    "string \<Rightarrow> string list \<Rightarrow> 'res list \<Rightarrow> int \<Rightarrow> view_error + 'res policy_draft list"

type_synonym 'res grant_or_revoke =
  "operate \<Rightarrow> subject \<Rightarrow> 'res policy_draft list \<Rightarrow> view_error + stored_policy list"

text \<open>The arguments of \<open>audit_context_setter\<close>.\<close>

record audit_context =
  audit_operate :: operate
  audit_subject :: subject
  audit_system_id :: string
  audit_policies :: "stored_policy list"

record batch_item =
  item_action_id :: string
  item_policy_id :: int

datatype view_response = PolicyId int | PolicyList "batch_item list"

text \<open>
  The part the two single-action views share after the translation: grant or revoke,
  set the audit context, answer with \<open>policies[0].policy_id\<close>.
\<close>

definition single_post ::
  "'res grant_or_revoke \<Rightarrow> ('res, 'a) single_data_scheme
     \<Rightarrow> view_error + 'res policy_draft list
     \<Rightarrow> audit_context list \<times> (view_error + view_response)" where
  "single_post grant_or_revoke data translated =
     (case translated of
        Inl e \<Rightarrow> ([], Inl e)
      | Inr policy_list \<Rightarrow>
          (case grant_or_revoke (operate data) (subject data) policy_list of
             Inl e \<Rightarrow> ([], Inl e)
           | Inr policies \<Rightarrow>
               (let audit = \<lparr>audit_operate = operate data, audit_subject = subject data,
                              audit_system_id = system data, audit_policies = policies\<rparr>
                in case policies of
                     [] \<Rightarrow> ([audit], Inl (PyError IndexError))
                   | p # ps \<Rightarrow> ([audit], Inr (PolicyId (policy_id p))))))"

definition AuthInstanceView_post ::
  "('req \<Rightarrow> detail + 'res single_data) \<Rightarrow> 'res trans \<Rightarrow> 'res grant_or_revoke \<Rightarrow> 'req
     \<Rightarrow> audit_context list \<times> (view_error + view_response)" where
  "AuthInstanceView_post is_valid tr grant_or_revoke req =
     (case is_valid req of
        Inl d \<Rightarrow> ([], Inl (ValidationFailed d))
      | Inr data \<Rightarrow>
          single_post grant_or_revoke data
            (to_policy_list_for_instance tr (system data) (action_id_of (action data))
               (resources data) (expired_at data)))"

definition AuthPathView_post ::
  "('req \<Rightarrow> detail + 'res single_data) \<Rightarrow> 'res trans \<Rightarrow> 'res grant_or_revoke \<Rightarrow> 'req
     \<Rightarrow> audit_context list \<times> (view_error + view_response)" where
  "AuthPathView_post is_valid tr grant_or_revoke req =
     (case is_valid req of
        Inl d \<Rightarrow> ([], Inl (ValidationFailed d))
      | Inr data \<Rightarrow>
          single_post grant_or_revoke data
            (to_policy_list_for_path tr (system data) (action_id_of (action data))
               (resources data) (expired_at data)))"

text \<open>
  The part the two batch views share after the translation: grant or revoke, set the
  audit context, answer with one item per returned policy.
\<close>

definition batch_post ::
  "'res grant_or_revoke \<Rightarrow> ('res, 'a) batch_data_scheme
     \<Rightarrow> view_error + 'res policy_draft list
     \<Rightarrow> audit_context list \<times> (view_error + view_response)" where
  "batch_post grant_or_revoke data translated =
     (case translated of
        Inl e \<Rightarrow> ([], Inl e)
      | Inr policy_list \<Rightarrow>
          (case grant_or_revoke (operate data) (subject data) policy_list of
             Inl e \<Rightarrow> ([], Inl e)
           | Inr policies \<Rightarrow>
               ([\<lparr>audit_operate = operate data, audit_subject = subject data,
                   audit_system_id = system data, audit_policies = policies\<rparr>],
                Inr (PolicyList
                  (map (\<lambda>p. \<lparr>item_action_id = action_id p, item_policy_id = policy_id p\<rparr>)
                     policies)))))"

definition AuthBatchInstanceView_post ::
  "('req \<Rightarrow> detail + 'res batch_data) \<Rightarrow> 'res trans \<Rightarrow> 'res grant_or_revoke \<Rightarrow> 'req
     \<Rightarrow> audit_context list \<times> (view_error + view_response)" where
  "AuthBatchInstanceView_post is_valid tr grant_or_revoke req =
     (case is_valid req of
        Inl d \<Rightarrow> ([], Inl (ValidationFailed d))
      | Inr data \<Rightarrow>
          batch_post grant_or_revoke data
            (to_policy_list_for_instances tr (system data) (map action_id_of (actions data))
               (resources data) (expired_at data)))"

definition AuthBatchPathView_post ::
  "('req \<Rightarrow> detail + 'res batch_data) \<Rightarrow> 'res trans \<Rightarrow> 'res grant_or_revoke \<Rightarrow> 'req
     \<Rightarrow> audit_context list \<times> (view_error + view_response)" where
  "AuthBatchPathView_post is_valid tr grant_or_revoke req =
     (case is_valid req of
        Inl d \<Rightarrow> ([], Inl (ValidationFailed d))
      | Inr data \<Rightarrow>
          batch_post grant_or_revoke data
            (to_policy_list_for_paths tr (system data) (map action_id_of (actions data))
               (resources data) (expired_at data)))"

text \<open>
  Modelled from the spec: \<open>AuthorizationTrans\<close> is not part of the source at hand. The
  single-action operations produce exactly one draft with all the given resources under
  the action; the batch operations fan out to one draft per action id, each with the
  same resource set, in the order of the action ids. An operation fails with
  \<open>InvalidResourceKind\<close> when the schema collaborator (the parameter \<open>schema_ok\<close>) rejects
  a resource of the system.
\<close>

definition mk_draft :: "string \<Rightarrow> 'res list \<Rightarrow> int \<Rightarrow> string \<Rightarrow> 'res policy_draft" where
  "mk_draft sys rs exp a =
     \<lparr>draft_system = sys, draft_action_id = a, draft_resources = set rs,
      draft_expired_at = exp\<rparr>"

definition translate ::
  "(string \<Rightarrow> 'res \<Rightarrow> bool) \<Rightarrow> string \<Rightarrow> string list \<Rightarrow> 'res list \<Rightarrow> int
     \<Rightarrow> view_error + 'res policy_draft list" where
  "translate schema_ok sys action_ids rs exp =
     (if list_all (schema_ok sys) rs then Inr (map (mk_draft sys rs exp) action_ids)
      else Inl (Raised ''InvalidResourceKind''))"

definition PolicyTranslator :: "(string \<Rightarrow> 'res \<Rightarrow> bool) \<Rightarrow> 'res trans" where
  "PolicyTranslator schema_ok =
     \<lparr>to_policy_list_for_instance = (\<lambda>sys a. translate schema_ok sys [a]),
      to_policy_list_for_path = (\<lambda>sys a. translate schema_ok sys [a]),
      to_policy_list_for_instances = translate schema_ok,
      to_policy_list_for_paths = translate schema_ok\<rparr>"

section \<open>Example inputs\<close>

text \<open>
  An open-API request and an internal one, a table of native statuses, the nested
  validation detail of a missing resource id with the serializers it comes from, and an
  exception carrying them.
\<close>

definition open_request :: request where
  "open_request =
     \<lparr>path = ''/api/v1/open/authorization/instance/'', request_method = ''POST'',
      method_attr = Some [], body = ''{}''\<rparr>"

definition internal_request :: request where
  "internal_request =
     \<lparr>path = ''/api/v1/policies/'', request_method = ''PUT'', method_attr = None,
      body = ''system=bk_cmdb''\<rparr>"

definition native_status :: "error_code \<Rightarrow> nat" where
  "native_status c =
     (case c of UNAUTHORIZED \<Rightarrow> 401 | FORBIDDEN \<Rightarrow> 403 | NOT_FOUND_ERROR \<Rightarrow> 404
      | SYSTEM_ERROR \<Rightarrow> 500 | METHOD_NOT_ALLOWED \<Rightarrow> 405 | _ \<Rightarrow> 400)"

definition no_repr :: "detail \<Rightarrow> string" where
  "no_repr d = ''<repr>''"

definition resources_detail :: detail where
  "resources_detail =
     DDict [(''resources'', DDict [(''0'', DDict [(''id'', DList [Msg ''required''])])])]"

definition resource_slz :: field where
  "resource_slz =
     Serializer [] [(''type'', PlainField ''Resource type''), (''id'', PlainField ''Resource id'')]"

definition auth_slz :: field where
  "auth_slz =
     Serializer [] [(''system'', PlainField ''System''),
                    (''resources'', ListField ''Resources'' resource_slz)]"

definition validation_exc :: exc where
  "validation_exc =
     \<lparr>classes = [ValidationError], detail = resources_detail, serializer = Some auth_slz,
      as_error = error_codes native_status SYSTEM_ERROR\<rparr>"

text \<open>
  A recognized domain failure and an unexpected exception; \<open>is_logger_call\<close> picks the
  calls of \<open>logger.error\<close> out of the calls made.
\<close>

definition domain_exc :: exc where
  "domain_exc =
     \<lparr>classes = [CodeException], detail = DList [], serializer = None,
      as_error = \<lparr>code = DomainCode ''GROUP_MEMBER_LIMIT'',
                   message = Obj (Msg ''too many members''),
                   message_replace = False, status_code = 409\<rparr>\<rparr>"



text \<open>
  A serializer with a nested serializer, and a child serializer that does not declare
  the field \<open>id\<close>.
\<close>

definition subject_slz :: field where
  "subject_slz =
     Serializer [] [(''subject'', Serializer ''Subject''
                                    [(''type'', PlainField ''Subject type'')])]"

definition bare_slz :: field where
  "bare_slz =
     Serializer [] [(''resources'',
        ListField ''Resources'' (Serializer [] [(''type'', PlainField ''Resource type'')]))]"

text \<open>
  A batch request and a single-action request (validated data), a store that numbers the
  policies it returns from 1 in the order of the drafts, a store that returns no policy,
  and a schema collaborator that accepts every resource.
\<close>

definition bob :: subject where
  "bob = \<lparr>subject_type = ''user'', subject_id = ''bob''\<rparr>"

definition batch_request :: "string batch_data" where
  "batch_request =
     \<lparr>operate = Grant, subject = bob, system = ''bk_cmdb'', expired_at = 4102444800,
      resources = [''host:/group:1/''], actions = [Action ''view'', Action ''edit'']\<rparr>"

definition single_request :: "string single_data" where
  "single_request =
     \<lparr>operate = Grant, subject = bob, system = ''bk_cmdb'', expired_at = 4102444800,
      resources = [''host:123''], action = Action ''view''\<rparr>"

definition store :: "string grant_or_revoke" where
  "store op s drafts =
     Inr (map (\<lambda>(i, d). \<lparr>policy_id = int i, action_id = draft_action_id d\<rparr>)
            (enumerate 1 drafts))"

definition empty_store :: "string grant_or_revoke" where
  "empty_store op s drafts = Inr []"

definition any_schema :: "string \<Rightarrow> string \<Rightarrow> bool" where
  "any_schema sys r = True"

section \<open>Properties of the error middleware\<close>

lemma open_request_is_open: "is_open_api_request open_request"
  by (simp add: is_open_api_request_def open_request_def sublist_code)

lemma internal_request_not_open: "\<not> is_open_api_request internal_request"
  by (simp add: is_open_api_request_def internal_request_def sublist_code)

lemma one_line_resources:
  "one_line_error no_repr (Some auth_slz) resources_detail = Inr (Msg ''Resource id: required'')"
  by (simp add: auth_slz_def resource_slz_def resources_detail_def one_line_tail_def NON_FIELD_ERRORS_KEY_def)

text \<open>
  C1. Whenever the middleware answers a failure, the body carries the code and the
  message of the classified error (the error of the classifier, or \<open>SYSTEM_ERROR\<close> when
  the classifier returns none). The status is 200 when the request path contains
  \<open>/api/v1/open/\<close> and the code is none of \<open>UNAUTHORIZED\<close>, \<open>FORBIDDEN\<close>,
  \<open>NOT_FOUND_ERROR\<close>, \<open>SYSTEM_ERROR\<close>; otherwise it is the error's own status code.
\<close>

theorem open_api_status_override:
  assumes "process_exception native py_repr r e = (fx, Inr (Some resp))"
  shows "\<exists>error.
      (snd (exception_to_error native py_repr r e) = Inr (Some error)
        \<or> snd (exception_to_error native py_repr r e) = Inr None
            \<and> error = error_codes native SYSTEM_ERROR)
      \<and> body_code (response_data resp) = code error
      \<and> body_message (response_data resp) = message error
      \<and> response_status resp =
          (if sublist ''/api/v1/open/'' (path r)
              \<and> code error \<notin> {UNAUTHORIZED, FORBIDDEN, NOT_FOUND_ERROR, SYSTEM_ERROR}
           then 200 else status_code error)"
proof -
  have nf: "\<not> isinstance e Http404"
    using assms by (auto simp add: process_exception_def)
  obtain gx res where cls: "exception_to_error native py_repr r e = (gx, res)"
    by (cases "exception_to_error native py_repr r e")
  have resp_of: "body_code (response_data (respond r err)) = code err
      \<and> body_message (response_data (respond r err)) = message err
      \<and> response_status (respond r err) =
          (if sublist ''/api/v1/open/'' (path r)
              \<and> code err \<notin> {UNAUTHORIZED, FORBIDDEN, NOT_FOUND_ERROR, SYSTEM_ERROR}
           then 200 else status_code err)" for err
    by (simp add: respond_def as_json_def is_open_api_request_def isinstance_error_def
        ignore_errors_def HTTP_200_OK_def)
  show ?thesis
  proof (cases res)
    case (Inl err)
    with assms nf cls show ?thesis by (simp add: process_exception_def)
  next
    case (Inr opt)
    show ?thesis
    proof (cases opt)
      case None
      with assms nf cls Inr have "resp = respond r (error_codes native SYSTEM_ERROR)"
        by (simp add: process_exception_def)
      with cls Inr None resp_of [of "error_codes native SYSTEM_ERROR"] show ?thesis
        by auto
    next
      case (Some err)
      with assms nf cls Inr have "resp = respond r err"
        by (simp add: process_exception_def)
      with cls Inr Some resp_of [of err] show ?thesis
        by auto
    qed
  qed
qed

theorem open_api_status_override_witness:
  "process_exception native_status no_repr open_request validation_exc =
     ([], Inr (Some \<lparr>response_data = \<lparr>body_code = VALIDATE_ERROR,
                                       body_message = JsonDumps resources_detail\<rparr>,
                      response_status = 200\<rparr>))
   \<and> process_exception native_status no_repr internal_request validation_exc =
     ([], Inr (Some \<lparr>response_data = \<lparr>body_code = VALIDATE_ERROR,
                                       body_message = Obj (Msg ''Resource id: required'')\<rparr>,
                      response_status = 400\<rparr>))
   \<and> (\<exists>error.
        (snd (exception_to_error native_status no_repr open_request validation_exc)
           = Inr (Some error)
         \<or> snd (exception_to_error native_status no_repr open_request validation_exc)
              = Inr None
            \<and> error = error_codes native_status SYSTEM_ERROR)
        \<and> VALIDATE_ERROR = code error
        \<and> JsonDumps resources_detail = message error
        \<and> 200 = (if sublist ''/api/v1/open/'' (path open_request)
                      \<and> code error \<notin> {UNAUTHORIZED, FORBIDDEN, NOT_FOUND_ERROR, SYSTEM_ERROR}
                   then 200 else status_code error))
   \<and> (\<exists>error.
        (snd (exception_to_error native_status no_repr internal_request validation_exc)
           = Inr (Some error)
         \<or> snd (exception_to_error native_status no_repr internal_request validation_exc)
              = Inr None
            \<and> error = error_codes native_status SYSTEM_ERROR)
        \<and> VALIDATE_ERROR = code error
        \<and> Obj (Msg ''Resource id: required'') = message error
        \<and> 400 = (if sublist ''/api/v1/open/'' (path internal_request)
                      \<and> code error \<notin> {UNAUTHORIZED, FORBIDDEN, NOT_FOUND_ERROR, SYSTEM_ERROR}
                   then 200 else status_code error))"
proof -
  have h1: "process_exception native_status no_repr open_request validation_exc =
     ([], Inr (Some \<lparr>response_data = \<lparr>body_code = VALIDATE_ERROR,
                                       body_message = JsonDumps resources_detail\<rparr>,
                      response_status = 200\<rparr>))"
    using open_request_is_open
    by (simp add: process_exception_def exception_to_error_def isinstance_def validation_exc_def
        respond_def as_json_def format_def error_codes_def isinstance_error_def ignore_errors_def
        HTTP_200_OK_def)
  have h2: "process_exception native_status no_repr internal_request validation_exc =
     ([], Inr (Some \<lparr>response_data = \<lparr>body_code = VALIDATE_ERROR,
                                       body_message = Obj (Msg ''Resource id: required'')\<rparr>,
                      response_status = 400\<rparr>))"
    using internal_request_not_open one_line_resources
    by (simp add: process_exception_def exception_to_error_def isinstance_def validation_exc_def
        respond_def as_json_def format_def error_codes_def isinstance_error_def ignore_errors_def
        native_status_def)
  from open_api_status_override [OF h1] open_api_status_override [OF h2] h1 h2
  show ?thesis by simp
qed

text \<open>
  C7. An exception that is an \<open>Http404\<close> is passed through: the middleware returns no
  response and makes no call, whatever other classes the exception has, since this
  check comes first.
\<close>

theorem not_found_passes_through:
  "isinstance e Http404 \<Longrightarrow> process_exception native py_repr r e = ([], Inr None)"
  by (simp add: process_exception_def)

theorem not_found_passes_through_witness:
  "isinstance \<lparr>classes = [Http404, CodeException, ValidationError], detail = DList [],
               serializer = None, as_error = error_codes native_status FORBIDDEN\<rparr> Http404
   \<and> process_exception native_status no_repr open_request
        \<lparr>classes = [Http404, CodeException, ValidationError], detail = DList [],
         serializer = None, as_error = error_codes native_status FORBIDDEN\<rparr> = ([], Inr None)"
proof -
  have h: "isinstance \<lparr>classes = [Http404, CodeException, ValidationError], detail = DList [],
               serializer = None, as_error = error_codes native_status FORBIDDEN\<rparr> Http404"
    by (simp add: isinstance_def)
  from not_found_passes_through [OF h] h show ?thesis by simp
qed

text \<open>
  C8. An exception that is a \<open>NotAuthenticated\<close> or an \<open>AuthenticationFailed\<close> is
  classified as \<open>UNAUTHORIZED\<close>, whatever other classes it has: the check comes before
  those for forbidden, method-not-allowed, parse, validation and domain failures and
  before the catch-all.
\<close>

theorem unauthenticated_first:
  assumes "isinstance e NotAuthenticated \<or> isinstance e AuthenticationFailed"
  shows "exception_to_error native py_repr r e =
           ([], Inr (Some (error_codes native UNAUTHORIZED)))
         \<and> code (error_codes native UNAUTHORIZED) = UNAUTHORIZED"
  using assms by (auto simp add: exception_to_error_def error_codes_def)

theorem unauthenticated_first_witness:
  "(isinstance \<lparr>classes = [AuthenticationFailed, PermissionDenied, ValidationError,
                            CodeException],
                detail = DList [], serializer = None,
                as_error = error_codes native_status FORBIDDEN\<rparr> NotAuthenticated
    \<or> isinstance \<lparr>classes = [AuthenticationFailed, PermissionDenied, ValidationError,
                              CodeException],
                  detail = DList [], serializer = None,
                  as_error = error_codes native_status FORBIDDEN\<rparr> AuthenticationFailed)
   \<and> exception_to_error native_status no_repr internal_request
        \<lparr>classes = [AuthenticationFailed, PermissionDenied, ValidationError, CodeException],
         detail = DList [], serializer = None,
         as_error = error_codes native_status FORBIDDEN\<rparr> =
       ([], Inr (Some \<lparr>code = UNAUTHORIZED, message = DefaultMessage,
                        message_replace = False, status_code = 401\<rparr>))"
proof -
  have h: "isinstance \<lparr>classes = [AuthenticationFailed, PermissionDenied, ValidationError,
                            CodeException],
                detail = DList [], serializer = None,
                as_error = error_codes native_status FORBIDDEN\<rparr> NotAuthenticated
    \<or> isinstance \<lparr>classes = [AuthenticationFailed, PermissionDenied, ValidationError,
                              CodeException],
                  detail = DList [], serializer = None,
                  as_error = error_codes native_status FORBIDDEN\<rparr> AuthenticationFailed"
    by (simp add: isinstance_def)
  from unauthenticated_first [OF h, of native_status no_repr internal_request] h
  show ?thesis by (simp add: error_codes_def native_status_def)
qed



text \<open>
  C5. An exception that reaches the domain-failure branch (a \<open>CodeException\<close> of none of
  the classes checked before) is returned as it is, after exactly two calls:
  \<open>set_rollback\<close> and \<open>log_api_error_trace\<close>. The middleware then answers with its code
  and message and makes no further call: nothing is logged and nothing is reported.
\<close>

theorem domain_failure_passes_through:
  assumes "isinstance e CodeException"
    and "\<forall>c \<in> {NotAuthenticated, AuthenticationFailed, PermissionDenied, MethodNotAllowed,
                 ParseError, ValidationError}. \<not> isinstance e c"
  shows "exception_to_error native py_repr r e =
           ([SetRollback, LogApiErrorTrace r None], Inr (Some (as_error e)))
       \<and> (\<not> isinstance e Http404 \<longrightarrow>
            (\<exists>resp. process_exception native py_repr r e =
                      ([SetRollback, LogApiErrorTrace r None], Inr (Some resp))
                   \<and> body_code (response_data resp) = code (as_error e)
                   \<and> body_message (response_data resp) = message (as_error e)))"
proof -
  have cls: "exception_to_error native py_repr r e =
           ([SetRollback, LogApiErrorTrace r None], Inr (Some (as_error e)))"
    using assms by (simp add: exception_to_error_def)
  then show ?thesis
    by (simp add: process_exception_def respond_def as_json_def)
qed

theorem domain_failure_passes_through_witness:
  "classes domain_exc = [CodeException]
   \<and> exception_to_error native_status no_repr internal_request domain_exc =
        ([SetRollback, LogApiErrorTrace internal_request None],
         Inr (Some \<lparr>code = DomainCode ''GROUP_MEMBER_LIMIT'',
                     message = Obj (Msg ''too many members''),
                     message_replace = False, status_code = 409\<rparr>))
   \<and> (\<exists>resp. process_exception native_status no_repr internal_request domain_exc =
                ([SetRollback, LogApiErrorTrace internal_request None], Inr (Some resp))
              \<and> body_code (response_data resp) = DomainCode ''GROUP_MEMBER_LIMIT''
              \<and> body_message (response_data resp) = Obj (Msg ''too many members''))"
proof -
  have a: "isinstance domain_exc CodeException"
    by (simp add: isinstance_def domain_exc_def)
  have b: "\<forall>c \<in> {NotAuthenticated, AuthenticationFailed, PermissionDenied, MethodNotAllowed,
               ParseError, ValidationError}. \<not> isinstance domain_exc c"
    by (simp add: isinstance_def domain_exc_def)
  have c: "\<not> isinstance domain_exc Http404"
    by (simp add: isinstance_def domain_exc_def)
  have d: "as_error domain_exc = \<lparr>code = DomainCode ''GROUP_MEMBER_LIMIT'',
                     message = Obj (Msg ''too many members''),
                     message_replace = False, status_code = 409\<rparr>"
    by (simp add: domain_exc_def)
  from domain_failure_passes_through [OF a b, of native_status no_repr internal_request]
    c d
  show ?thesis by (simp add: domain_exc_def)
qed




section \<open>Properties of the single-line extraction\<close>



text \<open>
  C2. With a serializer whose field \<open>resources\<close> is a list field of a child serializer,
  the detail \<open>{"resources": {"0": {"id": ["required"]}}}\<close> gives \<open>"id: required"\<close>, with
  the label of the child's field \<open>id\<close> in place of \<open>id\<close> when the child declares that field.
  In general: where the first key names a list field and its error is a dict, the
  extraction continues in the first entry of that dict under the list's child; where it
  names a nested serializer, it continues in the error dict under that serializer; and
  for a message (or a list starting with one) under a key other than the non-field key,
  a serializer context gives \<open>"<label>: <message>"\<close> for a declared field and
  \<open>"<key>: <message>"\<close> otherwise.
\<close>

theorem one_line_error_nested:
  "(map_of tfs ''resources'' = Some (ListField rl (Serializer cl cfs)) \<longrightarrow>
      one_line_error py_repr (Some (Serializer tlab tfs))
        (DDict [(''resources'', DDict [(''0'', DDict [(''id'', DList [Msg ''required''])])])]) =
      Inr (Msg ((case map_of cfs ''id'' of Some f \<Rightarrow> label f | None \<Rightarrow> ''id'')
                @ '': required'')))
   \<and> (map_of (getattr_fields ls) lkey = Some (ListField ll lc) \<longrightarrow>
      one_line_error py_repr (Some ls) (DDict ((lkey, DDict ((k, child) # rest)) # lkvs)) =
      one_line_error py_repr (Some lc) (new_ValidationError child))
   \<and> (map_of (getattr_fields ns) nkey = Some (Serializer nl nfs) \<longrightarrow>
      one_line_error py_repr (Some ns) (DDict ((nkey, DDict nch) # nkvs)) =
      one_line_error py_repr (Some (Serializer nl nfs)) (DDict nch))
   \<and> (key \<noteq> NON_FIELD_ERRORS_KEY \<longrightarrow>
      one_line_error py_repr (Some (Serializer l fs)) (DDict ((key, DList (Msg m # es)) # kvs)) =
      Inr (Msg ((case map_of fs key of Some f \<Rightarrow> label f | None \<Rightarrow> key) @ '': '' @ m))
      \<and> one_line_error py_repr (Some (Serializer l fs)) (DDict ((key, Msg m) # kvs)) =
      Inr (Msg ((case map_of fs key of Some f \<Rightarrow> label f | None \<Rightarrow> key) @ '': '' @ m)))"
  by (auto simp add: one_line_tail_def NON_FIELD_ERRORS_KEY_def split: option.splits)

theorem one_line_error_nested_witness:
  "one_line_error no_repr (Some auth_slz) resources_detail =
     Inr (Msg ''Resource id: required'')
   \<and> one_line_error no_repr (Some bare_slz) resources_detail = Inr (Msg ''id: required'')
   \<and> one_line_error no_repr (Some auth_slz) resources_detail =
       one_line_error no_repr (Some resource_slz)
         (new_ValidationError (DDict [(''id'', DList [Msg ''required''])]))
   \<and> one_line_error no_repr (Some subject_slz)
         (DDict [(''subject'', DDict [(''type'', DList [Msg ''required''])])]) =
       one_line_error no_repr
         (Some (Serializer ''Subject'' [(''type'', PlainField ''Subject type'')]))
         (DDict [(''type'', DList [Msg ''required''])])
   \<and> ''id'' \<noteq> NON_FIELD_ERRORS_KEY
   \<and> one_line_error no_repr (Some resource_slz) (DDict [(''id'', DList [Msg ''required''])]) =
       Inr (Msg ''Resource id: required'')"
proof -
  have w1: "one_line_error no_repr (Some auth_slz) resources_detail =
     Inr (Msg ''Resource id: required'')"
    using one_line_error_nested [where py_repr = no_repr and tlab = "[]"
        and tfs = "[(''system'', PlainField ''System''),
                    (''resources'', ListField ''Resources'' resource_slz)]"
        and rl = "''Resources''" and cl = "[]"
        and cfs = "[(''type'', PlainField ''Resource type''),
                    (''id'', PlainField ''Resource id'')]", THEN conjunct1]
    by (simp add: auth_slz_def resource_slz_def resources_detail_def)
  have w2: "one_line_error no_repr (Some bare_slz) resources_detail = Inr (Msg ''id: required'')"
    using one_line_error_nested [where py_repr = no_repr and tlab = "[]"
        and tfs = "[(''resources'',
                     ListField ''Resources''
                       (Serializer [] [(''type'', PlainField ''Resource type'')]))]"
        and rl = "''Resources''" and cl = "[]"
        and cfs = "[(''type'', PlainField ''Resource type'')]", THEN conjunct1]
    by (simp add: bare_slz_def resources_detail_def)
  have w3: "one_line_error no_repr (Some auth_slz) resources_detail =
       one_line_error no_repr (Some resource_slz)
         (new_ValidationError (DDict [(''id'', DList [Msg ''required''])]))"
    using one_line_error_nested [where py_repr = no_repr and ls = auth_slz
        and lkey = "''resources''" and ll = "''Resources''" and lc = resource_slz
        and k = "''0''" and child = "DDict [(''id'', DList [Msg ''required''])]"
        and rest = "[]" and lkvs = "[]", THEN conjunct2, THEN conjunct1]
    by (simp add: auth_slz_def resources_detail_def)
  have w4: "one_line_error no_repr (Some subject_slz)
         (DDict [(''subject'', DDict [(''type'', DList [Msg ''required''])])]) =
       one_line_error no_repr
         (Some (Serializer ''Subject'' [(''type'', PlainField ''Subject type'')]))
         (DDict [(''type'', DList [Msg ''required''])])"
    using one_line_error_nested [where py_repr = no_repr and ns = subject_slz
        and nkey = "''subject''" and nl = "''Subject''"
        and nfs = "[(''type'', PlainField ''Subject type'')]"
        and nch = "[(''type'', DList [Msg ''required''])]" and nkvs = "[]",
        THEN conjunct2, THEN conjunct2, THEN conjunct1]
    by (simp add: subject_slz_def)
  have k: "''id'' \<noteq> NON_FIELD_ERRORS_KEY"
    by (simp add: NON_FIELD_ERRORS_KEY_def)
  have w5: "one_line_error no_repr (Some resource_slz)
              (DDict [(''id'', DList [Msg ''required''])]) =
            Inr (Msg ''Resource id: required'')"
    using k one_line_error_nested [where py_repr = no_repr and key = "''id''" and l = "[]"
        and fs = "[(''type'', PlainField ''Resource type''),
                   (''id'', PlainField ''Resource id'')]"
        and m = "''required''" and es = "[]" and kvs = "[]",
        THEN conjunct2, THEN conjunct2, THEN conjunct2]
    by (simp add: resource_slz_def)
  show ?thesis
    by (rule conjI [OF w1 conjI [OF w2 conjI [OF w3 conjI [OF w4 conjI [OF k w5]]]]])
qed

section \<open>Properties of the authorization views\<close>

lemma batch_post_order:
  assumes "\<forall>drafts ps. grant_or_revoke (operate d) (subject d) drafts = Inr ps
             \<longrightarrow> map action_id ps = map draft_action_id drafts"
    and "batch_post grant_or_revoke d (translate schema_ok sys ids rs exp) = (au, Inr resp)"
  shows "\<exists>items. resp = PolicyList items \<and> length items = length ids
           \<and> map item_action_id items = ids"
proof -
  from assms(2) obtain drafts where tr: "translate schema_ok sys ids rs exp = Inr drafts"
    by (auto simp add: batch_post_def split: sum.splits)
  then have ids: "map draft_action_id drafts = ids"
    by (auto simp add: translate_def mk_draft_def comp_def split: if_splits)
  from assms(2) tr obtain ps where
    g: "grant_or_revoke (operate d) (subject d) drafts = Inr ps"
    by (auto simp add: batch_post_def split: sum.splits)
  from assms(2) tr g have resp:
    "resp = PolicyList (map (\<lambda>p. \<lparr>item_action_id = action_id p, item_policy_id = policy_id p\<rparr>) ps)"
    by (simp add: batch_post_def)
  from assms(1) g ids have "map action_id ps = ids" by simp
  with resp show ?thesis
    by (auto simp add: comp_def dest: arg_cong [where f = length])
qed

lemma store_order:
  "store op s drafts = Inr ps \<Longrightarrow> map action_id ps = map draft_action_id drafts"
proof -
  assume "store op s drafts = Inr ps"
  then have "ps = map (\<lambda>(i, d). \<lparr>policy_id = int i, action_id = draft_action_id d\<rparr>)
                    (enumerate 1 drafts)"
    by (simp add: store_def)
  then have "map action_id ps = map (draft_action_id \<circ> snd) (enumerate 1 drafts)"
    by (simp add: comp_def case_prod_unfold)
  also have "\<dots> = map draft_action_id (map snd (enumerate 1 drafts))"
    by (simp only: map_map)
  also have "\<dots> = map draft_action_id drafts"
    by (simp only: map_snd_enumerate)
  finally show ?thesis .
qed

text \<open>
  C3. With the translator of the spec, and a \<open>grant_or_revoke\<close> that returns the stored
  policies in the order of the drafts it is given, a batch view (instance or path) that
  answers returns one item per requested action, and the action ids of the items are
  the requested action ids in the order of the request.
\<close>

theorem batch_views_keep_action_order:
  assumes "\<forall>drafts ps. grant_or_revoke (operate d) (subject d) drafts = Inr ps
             \<longrightarrow> map action_id ps = map draft_action_id drafts"
    and "is_valid req = Inr d"
  shows "(\<forall>au resp.
            AuthBatchInstanceView_post is_valid (PolicyTranslator schema_ok) grant_or_revoke req
              = (au, Inr resp) \<longrightarrow>
            (\<exists>items. resp = PolicyList items \<and> length items = length (actions d)
               \<and> map item_action_id items = map action_id_of (actions d)))
       \<and> (\<forall>au resp.
            AuthBatchPathView_post is_valid (PolicyTranslator schema_ok) grant_or_revoke req
              = (au, Inr resp) \<longrightarrow>
            (\<exists>items. resp = PolicyList items \<and> length items = length (actions d)
               \<and> map item_action_id items = map action_id_of (actions d)))"
proof -
  have ord: "\<exists>items. resp = PolicyList items \<and> length items = length (actions d)
               \<and> map item_action_id items = map action_id_of (actions d)"
    if "batch_post grant_or_revoke d
          (translate schema_ok (system d) (map action_id_of (actions d)) (resources d)
             (expired_at d)) = (au, Inr resp)" for au resp
    using batch_post_order [of grant_or_revoke d schema_ok "system d"
        "map action_id_of (actions d)" "resources d" "expired_at d" au resp] assms(1) that
    by simp
  from assms(2) ord show ?thesis
    by (simp add: AuthBatchInstanceView_post_def AuthBatchPathView_post_def
        PolicyTranslator_def)
qed

theorem batch_views_keep_action_order_witness:
  "AuthBatchInstanceView_post Inr (PolicyTranslator any_schema) store batch_request =
       ([\<lparr>audit_operate = Grant, audit_subject = bob, audit_system_id = ''bk_cmdb'',
          audit_policies = [\<lparr>policy_id = 1, action_id = ''view''\<rparr>,
                            \<lparr>policy_id = 2, action_id = ''edit''\<rparr>]\<rparr>],
        Inr (PolicyList [\<lparr>item_action_id = ''view'', item_policy_id = 1\<rparr>,
                         \<lparr>item_action_id = ''edit'', item_policy_id = 2\<rparr>]))
   \<and> AuthBatchPathView_post Inr (PolicyTranslator any_schema) store batch_request =
       ([\<lparr>audit_operate = Grant, audit_subject = bob, audit_system_id = ''bk_cmdb'',
          audit_policies = [\<lparr>policy_id = 1, action_id = ''view''\<rparr>,
                            \<lparr>policy_id = 2, action_id = ''edit''\<rparr>]\<rparr>],
        Inr (PolicyList [\<lparr>item_action_id = ''view'', item_policy_id = 1\<rparr>,
                         \<lparr>item_action_id = ''edit'', item_policy_id = 2\<rparr>]))
   \<and> (\<exists>items. PolicyList [\<lparr>item_action_id = ''view'', item_policy_id = 1\<rparr>,
                           \<lparr>item_action_id = ''edit'', item_policy_id = 2\<rparr>] = PolicyList items
          \<and> length items = length (actions batch_request)
          \<and> map item_action_id items = map action_id_of (actions batch_request))"
proof -
  have v: "(Inr :: string batch_data \<Rightarrow> detail + string batch_data) batch_request =
             Inr batch_request"
    by simp
  have i: "AuthBatchInstanceView_post Inr (PolicyTranslator any_schema) store batch_request =
       ([\<lparr>audit_operate = Grant, audit_subject = bob, audit_system_id = ''bk_cmdb'',
          audit_policies = [\<lparr>policy_id = 1, action_id = ''view''\<rparr>,
                            \<lparr>policy_id = 2, action_id = ''edit''\<rparr>]\<rparr>],
        Inr (PolicyList [\<lparr>item_action_id = ''view'', item_policy_id = 1\<rparr>,
                         \<lparr>item_action_id = ''edit'', item_policy_id = 2\<rparr>]))"
    by (simp add: AuthBatchInstanceView_post_def batch_post_def PolicyTranslator_def
        translate_def mk_draft_def any_schema_def store_def batch_request_def)
  have p: "AuthBatchPathView_post Inr (PolicyTranslator any_schema) store batch_request =
       ([\<lparr>audit_operate = Grant, audit_subject = bob, audit_system_id = ''bk_cmdb'',
          audit_policies = [\<lparr>policy_id = 1, action_id = ''view''\<rparr>,
                            \<lparr>policy_id = 2, action_id = ''edit''\<rparr>]\<rparr>],
        Inr (PolicyList [\<lparr>item_action_id = ''view'', item_policy_id = 1\<rparr>,
                         \<lparr>item_action_id = ''edit'', item_policy_id = 2\<rparr>]))"
    by (simp add: AuthBatchPathView_post_def batch_post_def PolicyTranslator_def
        translate_def mk_draft_def any_schema_def store_def batch_request_def)
  have so: "\<forall>drafts ps. store (operate batch_request) (subject batch_request) drafts = Inr ps
       \<longrightarrow> map action_id ps = map draft_action_id drafts"
    by (intro allI impI) (rule store_order)
  note t = batch_views_keep_action_order [where grant_or_revoke = store and d = batch_request
      and is_valid = Inr and req = batch_request and schema_ok = any_schema, OF so v]
  have c: "\<exists>items. PolicyList [\<lparr>item_action_id = ''view'', item_policy_id = 1\<rparr>,
                           \<lparr>item_action_id = ''edit'', item_policy_id = 2\<rparr>] = PolicyList items
          \<and> length items = length (actions batch_request)
          \<and> map item_action_id items = map action_id_of (actions batch_request)"
    by (rule t [THEN conjunct1, rule_format, OF i])
  show ?thesis
    by (rule conjI [OF i conjI [OF p c]])
qed

text \<open>
  C9. A single-action view (instance or path) that answers has been given a non-empty
  policy list by \<open>grant_or_revoke\<close> and answers with the \<open>policy_id\<close> of its first
  element; when \<open>grant_or_revoke\<close> returns the empty list, the view raises
  \<open>IndexError\<close> and gives no answer.
\<close>

theorem single_views_first_policy:
  assumes "is_valid req = Inr d"
  shows "(\<forall>au resp. AuthInstanceView_post is_valid tr grant_or_revoke req = (au, Inr resp) \<longrightarrow>
            (\<exists>drafts p ps.
               to_policy_list_for_instance tr (system d) (action_id_of (action d))
                 (resources d) (expired_at d) = Inr drafts
               \<and> grant_or_revoke (operate d) (subject d) drafts = Inr (p # ps)
               \<and> resp = PolicyId (policy_id p)))
       \<and> (\<forall>drafts.
            to_policy_list_for_instance tr (system d) (action_id_of (action d))
              (resources d) (expired_at d) = Inr drafts
            \<and> grant_or_revoke (operate d) (subject d) drafts = Inr [] \<longrightarrow>
            snd (AuthInstanceView_post is_valid tr grant_or_revoke req) = Inl (PyError IndexError))
       \<and> (\<forall>au resp. AuthPathView_post is_valid tr grant_or_revoke req = (au, Inr resp) \<longrightarrow>
            (\<exists>drafts p ps.
               to_policy_list_for_path tr (system d) (action_id_of (action d))
                 (resources d) (expired_at d) = Inr drafts
               \<and> grant_or_revoke (operate d) (subject d) drafts = Inr (p # ps)
               \<and> resp = PolicyId (policy_id p)))
       \<and> (\<forall>drafts.
            to_policy_list_for_path tr (system d) (action_id_of (action d))
              (resources d) (expired_at d) = Inr drafts
            \<and> grant_or_revoke (operate d) (subject d) drafts = Inr [] \<longrightarrow>
            snd (AuthPathView_post is_valid tr grant_or_revoke req) = Inl (PyError IndexError))"
  using assms
  by (auto simp add: AuthInstanceView_post_def AuthPathView_post_def single_post_def Let_def
      split: sum.splits list.splits)


theorem single_views_first_policy_witness:
  "AuthInstanceView_post Inr (PolicyTranslator any_schema) store single_request =
       ([\<lparr>audit_operate = Grant, audit_subject = bob, audit_system_id = ''bk_cmdb'',
          audit_policies = [\<lparr>policy_id = 1, action_id = ''view''\<rparr>]\<rparr>],
        Inr (PolicyId 1))
   \<and> (\<exists>drafts p ps.
         to_policy_list_for_instance (PolicyTranslator any_schema) (system single_request)
           (action_id_of (action single_request)) (resources single_request)
           (expired_at single_request) = Inr drafts
         \<and> store (operate single_request) (subject single_request) drafts = Inr (p # ps)
         \<and> PolicyId 1 = PolicyId (policy_id p))
   \<and> (\<exists>drafts.
         to_policy_list_for_path (PolicyTranslator any_schema) (system single_request)
           (action_id_of (action single_request)) (resources single_request)
           (expired_at single_request) = Inr drafts
         \<and> empty_store (operate single_request) (subject single_request) drafts = Inr [])
   \<and> snd (AuthPathView_post Inr (PolicyTranslator any_schema) empty_store single_request) =
       Inl (PyError IndexError)"
proof -
  have v: "(Inr :: string single_data \<Rightarrow> detail + string single_data) single_request =
             Inr single_request"
    by simp
  have i: "AuthInstanceView_post Inr (PolicyTranslator any_schema) store single_request =
       ([\<lparr>audit_operate = Grant, audit_subject = bob, audit_system_id = ''bk_cmdb'',
          audit_policies = [\<lparr>policy_id = 1, action_id = ''view''\<rparr>]\<rparr>],
        Inr (PolicyId 1))"
    by (simp add: AuthInstanceView_post_def single_post_def PolicyTranslator_def
        translate_def mk_draft_def any_schema_def store_def single_request_def)
  have t: "to_policy_list_for_path (PolicyTranslator any_schema) (system single_request)
           (action_id_of (action single_request)) (resources single_request)
           (expired_at single_request) =
         Inr [mk_draft ''bk_cmdb'' [''host:123''] 4102444800 ''view'']"
    by (simp add: PolicyTranslator_def translate_def any_schema_def single_request_def)
  have e: "empty_store (operate single_request) (subject single_request)
             [mk_draft ''bk_cmdb'' [''host:123''] 4102444800 ''view''] = Inr []"
    by (simp add: empty_store_def)
  note s1 = single_views_first_policy [where is_valid = Inr and req = single_request
      and d = single_request and tr = "PolicyTranslator any_schema"
      and grant_or_revoke = store, OF v]
  note s2 = single_views_first_policy [where is_valid = Inr and req = single_request
      and d = single_request and tr = "PolicyTranslator any_schema"
      and grant_or_revoke = empty_store, OF v]
  have c1: "\<exists>drafts p ps.
         to_policy_list_for_instance (PolicyTranslator any_schema) (system single_request)
           (action_id_of (action single_request)) (resources single_request)
           (expired_at single_request) = Inr drafts
         \<and> store (operate single_request) (subject single_request) drafts = Inr (p # ps)
         \<and> PolicyId 1 = PolicyId (policy_id p)"
    by (rule s1 [THEN conjunct1, rule_format, OF i])
  have te: "to_policy_list_for_path (PolicyTranslator any_schema) (system single_request)
           (action_id_of (action single_request)) (resources single_request)
           (expired_at single_request) =
             Inr [mk_draft ''bk_cmdb'' [''host:123''] 4102444800 ''view'']
         \<and> empty_store (operate single_request) (subject single_request)
             [mk_draft ''bk_cmdb'' [''host:123''] 4102444800 ''view''] = Inr []"
    by (rule conjI [OF t e])
  have c2: "\<exists>drafts.
         to_policy_list_for_path (PolicyTranslator any_schema) (system single_request)
           (action_id_of (action single_request)) (resources single_request)
           (expired_at single_request) = Inr drafts
         \<and> empty_store (operate single_request) (subject single_request) drafts = Inr []"
    using t e by simp
  have c3: "snd (AuthPathView_post Inr (PolicyTranslator any_schema) empty_store
                   single_request) = Inl (PyError IndexError)"
    by (rule s2 [THEN conjunct2, THEN conjunct2, THEN conjunct2, rule_format, OF te])
  show ?thesis
    by (rule conjI [OF i conjI [OF c1 conjI [OF c2 c3]]])
qed

end
